theory Spec2Isabelle
  imports Main
begin

section \<open>JavaScript exceptions\<close>

text \<open>
  The exceptions the modelled code can raise: an \<open>Error\<close> thrown by a \<open>throw\<close> statement or
  by a library call, and the \<open>TypeError\<close> the runtime raises when a property of \<open>null\<close> or
  \<open>undefined\<close> is read or a value that is not a function is called. Each carries its
  message.
\<close>

datatype exn = Error string | TypeError string

definition exn_toString :: "exn \<Rightarrow> string" where
  "exn_toString e =
     (case e of Error m \<Rightarrow> ''Error: '' @ m | TypeError m \<Rightarrow> ''TypeError: '' @ m)"

section \<open>Web UI traffic store (stores/trafficStore.ts)\<close>

text \<open>
  The zustand store keeps the list of flows shown on the traffic page. A flow is \<open>any\<close>
  in the source: \<open>Some f\<close> is a value with properties, \<open>None\<close> stands for \<open>null\<close> and
  \<open>undefined\<close>, the two values on which reading a property throws.
\<close>

record 'f TrafficState =
  flows :: "'f option list"
  totalFlows :: nat
  loading :: bool



text \<open>
  \<open>fetchFlows\<close> awaits \<open>apiClient.get\<close>; its outcome is the parameter \<open>r\<close>: \<open>Inr (items, total)\<close>
  for a response, \<open>Inl e\<close> when the request throws. The store is first set to loading.
\<close>

definition fetchFlows :: "'e + ('f option list \<times> nat) \<Rightarrow> 'f TrafficState \<Rightarrow> 'f TrafficState" where
  "fetchFlows r state =
     (let s1 = state\<lparr>loading := True\<rparr>
      in case r of
           Inr (its, tot) \<Rightarrow> s1\<lparr>flows := its, totalFlows := tot, loading := False\<rparr>
         | Inl e \<Rightarrow> s1\<lparr>loading := False\<rparr>)"

section \<open>Web UI WebSocket client (lib/websocket.ts)\<close>

text \<open>
  The first five fields are the private fields of \<open>class WebSocketClient\<close>. A socket is
  named by the position of its \<open>new WebSocket\<close> call, a listener callback by a number.
  \<open>listeners\<close> is the \<open>Map<string, Set<callback>>\<close> in insertion order.

  The other fields record what the client asked of the browser, in call order:
  \<open>sockets\<close> holds, for every \<open>new WebSocket\<close>, the token its handlers close over;
  \<open>closed\<close> the sockets \<open>close()\<close> was called on; \<open>timers\<close> every \<open>setTimeout\<close> call
  (delay in milliseconds, token of the \<open>connect\<close> it will run); \<open>fired\<close> the timers that
  have run; \<open>delivered\<close> every listener invocation (callback, payload).
  Console output is not part of the model.
\<close>

record WebSocketClient =
  ws :: "nat option"
  reconnectAttempts :: nat
  maxReconnectAttempts :: nat
  listeners :: "(string \<times> nat list) list"
  shouldReconnect :: bool
  sockets :: "string list"
  closed :: "nat list"
  timers :: "(nat \<times> string) list"
  fired :: "nat list"
  delivered :: "(nat \<times> string) list"

text \<open>\<^verbatim>\<open>export const wsClient = new WebSocketClient();\<close> with the field initialisers.\<close>

definition wsClient :: WebSocketClient where
  "wsClient = \<lparr>ws = None, reconnectAttempts = 0, maxReconnectAttempts = 5, listeners = [],
               shouldReconnect = True, sockets = [], closed = [], timers = [], fired = [],
               delivered = []\<rparr>"

text \<open>
  \<^verbatim>\<open>connect(token) { this.shouldReconnect = true; ...; this.ws = new WebSocket(wsUrl); ... }\<close>

  The four handlers installed on the new socket are \<open>onopen\<close>, \<open>onmessage\<close>, \<open>onerror\<close>
  (logging only) and \<open>onclose\<close> below.
\<close>

definition connect :: "string \<Rightarrow> WebSocketClient \<Rightarrow> WebSocketClient" where
  "connect token c =
     c\<lparr>shouldReconnect := True, ws := Some (length (sockets c)), sockets := sockets c @ [token]\<rparr>"

text \<open>
  \<^verbatim>\<open>
  private reconnect(token) {
    if (!this.shouldReconnect) { return; }
    if (this.reconnectAttempts < this.maxReconnectAttempts) {
      this.reconnectAttempts++;
      setTimeout(() => this.connect(token), 2000 * this.reconnectAttempts);
    } else { console.warn('[WS] Max reconnection attempts reached'); }
  }\<close>
\<close>

definition reconnect :: "string \<Rightarrow> WebSocketClient \<Rightarrow> WebSocketClient" where
  "reconnect token c =
     (if \<not> shouldReconnect c then c
      else if reconnectAttempts c < maxReconnectAttempts c then
        (let c1 = c\<lparr>reconnectAttempts := reconnectAttempts c + 1\<rparr>
         in c1\<lparr>timers := timers c1 @ [(2000 * reconnectAttempts c1, token)]\<rparr>)
      else c)"

text \<open>\<^verbatim>\<open>private emit(event, data) { this.listeners.get(event)?.forEach(callback => callback(data)); }\<close>\<close>

definition emit :: "string \<Rightarrow> string \<Rightarrow> WebSocketClient \<Rightarrow> WebSocketClient" where
  "emit event data c =
     (case map_of (listeners c) event of
        None \<Rightarrow> c
      | Some cbs \<Rightarrow> c\<lparr>delivered := delivered c @ map (\<lambda>cb. (cb, data)) cbs\<rparr>)"

text \<open>\<^verbatim>\<open>this.ws.onopen = () => { this.reconnectAttempts = 0; };\<close>\<close>

definition onopen :: "WebSocketClient \<Rightarrow> WebSocketClient" where
  "onopen c = c\<lparr>reconnectAttempts := 0\<rparr>"

text \<open>
  \<^verbatim>\<open>this.ws.onmessage = (event) => { const data = JSON.parse(event.data); this.emit(data.event, data.data); };\<close>

  The argument is the parsed message (event name, payload); \<open>None\<close> is a message that
  \<open>JSON.parse\<close> rejects, where the handler throws before \<open>emit\<close>.
\<close>

definition onmessage :: "(string \<times> string) option \<Rightarrow> WebSocketClient \<Rightarrow> WebSocketClient" where
  "onmessage m c = (case m of None \<Rightarrow> c | Some (event, data) \<Rightarrow> emit event data c)"

text \<open>\<^verbatim>\<open>this.ws.onclose = () => { this.reconnect(token); };\<close>\<close>

definition onclose :: "string \<Rightarrow> WebSocketClient \<Rightarrow> WebSocketClient" where
  "onclose token c = reconnect token c"

text \<open>
  \<^verbatim>\<open>
  on(event, callback) {
    if (!this.listeners.has(event)) { this.listeners.set(event, new Set()); }
    this.listeners.get(event)!.add(callback);
  }\<close>
\<close>

definition on_listener :: "string \<Rightarrow> nat \<Rightarrow> WebSocketClient \<Rightarrow> WebSocketClient" where
  "on_listener event callback c =
     (case map_of (listeners c) event of
        None \<Rightarrow> c\<lparr>listeners := listeners c @ [(event, [callback])]\<rparr>
      | Some cbs \<Rightarrow>
          c\<lparr>listeners := map (\<lambda>(e, xs). if e = event \<and> callback \<notin> set xs
                                           then (e, xs @ [callback]) else (e, xs))
                               (listeners c)\<rparr>)"

text \<open>
  \<^verbatim>\<open>
  off(event, callback?) {
    if (callback) { this.listeners.get(event)?.delete(callback); }
    else { this.listeners.delete(event); }
  }\<close>
\<close>

definition off_listener :: "string \<Rightarrow> nat option \<Rightarrow> WebSocketClient \<Rightarrow> WebSocketClient" where
  "off_listener event callback c =
     (case callback of
        Some cb \<Rightarrow>
          c\<lparr>listeners := map (\<lambda>(e, xs). if e = event then (e, removeAll cb xs) else (e, xs))
                               (listeners c)\<rparr>
      | None \<Rightarrow> c\<lparr>listeners := filter (\<lambda>(e, xs). e \<noteq> event) (listeners c)\<rparr>)"

text \<open>
  \<^verbatim>\<open>
  disconnect() {
    this.shouldReconnect = false;
    this.ws?.close();
    this.ws = null;
    this.listeners.clear();
  }\<close>
\<close>

definition disconnect :: "WebSocketClient \<Rightarrow> WebSocketClient" where
  "disconnect c =
     c\<lparr>shouldReconnect := False,
       closed := closed c @ (case ws c of None \<Rightarrow> [] | Some i \<Rightarrow> [i]),
       ws := None,
       listeners := []\<rparr>"

text \<open>
  What can happen to the client: a call of one of its public methods, a pending timer
  running its callback, or an event on one of the sockets it created. A timer runs at most
  once; an event on a socket runs the handler that \<open>connect\<close> installed on that socket,
  with the token of that call.
\<close>

datatype ws_event =
    CallConnect string
  | CallDisconnect
  | CallOn string nat
  | CallOff string "nat option"
  | TimerFires nat
  | SocketOpens nat
  | SocketMessage nat "(string \<times> string) option"
  | SocketCloses nat

fun ws_step :: "ws_event \<Rightarrow> WebSocketClient \<Rightarrow> WebSocketClient" where
  "ws_step (CallConnect token) c = connect token c"
| "ws_step CallDisconnect c = disconnect c"
| "ws_step (CallOn event cb) c = on_listener event cb c"
| "ws_step (CallOff event cb) c = off_listener event cb c"
| "ws_step (TimerFires i) c =
     (if i < length (timers c) \<and> i \<notin> set (fired c)
      then connect (snd (timers c ! i)) (c\<lparr>fired := fired c @ [i]\<rparr>) else c)"
| "ws_step (SocketOpens i) c = (if i < length (sockets c) then onopen c else c)"
| "ws_step (SocketMessage i m) c = (if i < length (sockets c) then onmessage m c else c)"
| "ws_step (SocketCloses i) c = (if i < length (sockets c) then onclose (sockets c ! i) c else c)"

fun ws_run :: "ws_event list \<Rightarrow> WebSocketClient \<Rightarrow> WebSocketClient" where
  "ws_run [] c = c"
| "ws_run (e # es) c = ws_run es (ws_step e c)"

text \<open>The timers set so far that have not run yet.\<close>

definition pendingTimers :: "WebSocketClient \<Rightarrow> nat list" where
  "pendingTimers c = filter (\<lambda>i. i \<notin> set (fired c)) [0..<length (timers c)]"

text \<open>An explicit \<open>connect()\<close> call, as opposed to the one a timer runs.\<close>

fun is_connect :: "ws_event \<Rightarrow> bool" where
  "is_connect (CallConnect t) = True"
| "is_connect e = False"

text \<open>
  Five connection attempts that all fail, after the first \<open>connect\<close>: each socket closes
  without having opened, and the timer set by \<open>reconnect\<close> runs the next \<open>connect\<close>.
\<close>

definition five_failures :: "ws_event list" where
  "five_failures =
     [CallConnect ''t'',
      SocketCloses 0, TimerFires 0, SocketCloses 1, TimerFires 1, SocketCloses 2, TimerFires 2,
      SocketCloses 3, TimerFires 3, SocketCloses 4, TimerFires 4]"

section \<open>Web UI API client (lib/api.ts)\<close>

text \<open>
  The response interceptor reads and writes two things of the browser: \<open>localStorage\<close>
  and \<open>window.location.href\<close>.
\<close>

record browser =
  localStorage :: "string \<rightharpoonup> string"
  location_href :: string

text \<open>
  The error axios hands to the rejection handler: \<open>error.response?.status\<close> is \<open>None\<close>
  when there is no response (network error, timeout).
\<close>

record axios_error =
  response_status :: "nat option"
  message :: string

text \<open>The part of a response the interceptor reads: its status and the request's URL.\<close>

record axios_response =
  status :: nat
  config_url :: string

datatype promise = Resolved axios_response | Rejected axios_error

text \<open>\<^verbatim>\<open>(response) => { console.debug(...); return response; }\<close>\<close>

definition interceptor_onFulfilled :: "axios_response \<Rightarrow> browser \<Rightarrow> promise \<times> browser" where
  "interceptor_onFulfilled response b = (Resolved response, b)"

text \<open>
  \<^verbatim>\<open>
  (error) => {
    if (error.response?.status === 401) {
      localStorage.removeItem('token');
      window.location.href = '/login';
    }
    return Promise.reject(error);
  }\<close>
\<close>

definition interceptor_onRejected :: "axios_error \<Rightarrow> browser \<Rightarrow> promise \<times> browser" where
  "interceptor_onRejected error b =
     (let b1 = (if response_status error = Some 401
                then b\<lparr>localStorage := (localStorage b)(''token'' := None),
                       location_href := ''/login''\<rparr>
                else b)
      in (Rejected error, b1))"

section \<open>Mobile app: API client and auth store (src/api/client.ts, src/stores/authStore.ts)\<close>

record AuthResponse =
  access_token :: string
  token_type :: string

text \<open>What a \<open>catch\<close> clause receives: an \<open>Error\<close> object with its message, or any other value.\<close>

datatype thrown = ErrorObject string | OtherValue

text \<open>The two fields of \<open>class APIClient\<close> that its methods write: the token and the base URL.\<close>

record APIClient =
  api_token :: "string option"
  baseURL :: "string option"

text \<open>
  \<^verbatim>\<open>
  async login(username, password) {
    const response = await this.client.post('/api/v1/auth/login', { username, password });
    this.token = response.data.access_token;
    return response.data;
  }\<close>

  The outcome of the POST is the parameter \<open>r\<close>.
\<close>

definition api_login :: "thrown + AuthResponse \<Rightarrow> APIClient \<Rightarrow> (thrown + AuthResponse) \<times> APIClient" where
  "api_login r api =
     (case r of
        Inl e \<Rightarrow> (Inl e, api)
      | Inr data \<Rightarrow> (Inr data, api\<lparr>api_token := Some (access_token data)\<rparr>))"

definition clearToken :: "APIClient \<Rightarrow> APIClient" where
  "clearToken api = api\<lparr>api_token := None\<rparr>"

record AuthState =
  isAuthenticated :: bool
  token :: "string option"
  serverUrl :: string
  loading :: bool
  error :: "string option"

definition useAuthStore_init :: AuthState where
  "useAuthStore_init =
     \<lparr>isAuthenticated = False, token = None, serverUrl = [], loading = False, error = None\<rparr>"

text \<open>
  \<^verbatim>\<open>
  login: async (username, password) => {
    set({ loading: true, error: null });
    try {
      const response = await api.login(username, password);
      set({ isAuthenticated: true, token: response.access_token, loading: false });
      return true;
    } catch (error: unknown) {
      const message = error instanceof Error ? error.message : 'Login failed';
      set({ loading: false, error: message });
      return false;
    }
  }\<close>
\<close>

definition login :: "thrown + AuthResponse \<Rightarrow> AuthState \<times> APIClient \<Rightarrow> bool \<times> AuthState \<times> APIClient" where
  "login r = (\<lambda>(state, api).
     (let s1 = state\<lparr>loading := True, error := None\<rparr>
      in case api_login r api of
           (Inr response, api1) \<Rightarrow>
             (True,
              s1\<lparr>isAuthenticated := True, token := Some (access_token response), loading := False\<rparr>,
              api1)
         | (Inl e, api1) \<Rightarrow>
             (let message = (case e of ErrorObject m \<Rightarrow> m | OtherValue \<Rightarrow> ''Login failed'')
              in (False, s1\<lparr>loading := False, error := Some message\<rparr>, api1))))"

text \<open>\<^verbatim>\<open>logout: () => { api.clearToken(); set({ isAuthenticated: false, token: null }); }\<close>\<close>

definition logout :: "AuthState \<times> APIClient \<Rightarrow> AuthState \<times> APIClient" where
  "logout = (\<lambda>(state, api). (state\<lparr>isAuthenticated := False, token := None\<rparr>, clearToken api))"

section \<open>Desktop main process (desktop/electron/main.ts)\<close>

text \<open>
  What the main process does to the outside, in the order it does it: log lines,
  \<open>app.exit(code)\<close>, \<open>app.quit()\<close>, spawning the backend (the child's pid),
  \<open>backendProcess.kill('SIGTERM')\<close> on it, creating the window and the tray, and the
  update check. \<open>Kill\<close> is the only action of the file that stops something it
  started.
\<close>

datatype effect =
    LogInfo string
  | LogError string
  | AppExit nat
  | AppQuit
  | Spawn nat
  | Kill nat
  | NewBrowserWindow
  | NewTray
  | CheckForUpdates

text \<open>
  The module-level variables (\<open>mainWindow\<close> and \<open>tray\<close> as "is not null",
  \<open>backendProcess\<close> as the child's pid) and the trace of effects so far.
\<close>

record main_state =
  mainWindow :: bool
  tray :: bool
  backendProcess :: "nat option"
  isQuitting :: bool
  effects :: "effect list"

definition main_init :: main_state where
  "main_init = \<lparr>mainWindow = False, tray = False, backendProcess = None, isQuitting = False,
                 effects = []\<rparr>"

text \<open>
  What the startup reads from its environment. \<open>majorVersion\<close> is
  \<open>parseInt(nodeVersion.split('.')[0], 10)\<close>; the four paths are the values of the
  \<open>path.join\<close> expressions in \<open>getBackendPath\<close> and \<open>getUIPath\<close>; \<open>healthPolls\<close> are the
  outcomes of the successive health requests that fit before the 30 s timeout of
  \<open>waitForBackend\<close> (\<open>True\<close> for \<open>response.ok\<close>, \<open>False\<close> for any other response or a failed
  fetch); \<open>spawnPid\<close> is the child that \<open>spawn\<close> returns; the last three say whether the
  Electron call of that step throws, and with which message.
\<close>

record env =
  nodeVersion :: string
  majorVersion :: int
  isDev :: bool
  devBackendPath :: string
  prodBackendPath :: string
  devUIPath :: string
  prodUIPath :: string
  fs_existsSync :: "string \<Rightarrow> bool"
  healthPolls :: "bool list"
  spawnPid :: nat
  BrowserWindow_throws :: "string option"
  Tray_throws :: "string option"
  autoUpdater_throws :: "string option"

text \<open>
  A statement of the main process: it runs on the state and either completes or throws.
  \<open>sequence\<close> is a block of statements: the first one that throws ends the block.
\<close>

type_synonym stmt = "main_state \<Rightarrow> (exn + unit) \<times> main_state"

definition skip :: stmt where
  "skip s = (Inr (), s)"

definition throw :: "string \<Rightarrow> stmt" where
  "throw m s = (Inl (Error m), s)"

definition throwTypeError :: "string \<Rightarrow> stmt" where
  "throwTypeError m s = (Inl (TypeError m), s)"

definition perform :: "effect list \<Rightarrow> stmt" where
  "perform es s = (Inr (), s\<lparr>effects := effects s @ es\<rparr>)"

definition andThen :: "stmt \<Rightarrow> stmt \<Rightarrow> stmt" where
  "andThen m k s = (case m s of (Inl e, s1) \<Rightarrow> (Inl e, s1) | (Inr u, s1) \<Rightarrow> k s1)"

fun sequence :: "stmt list \<Rightarrow> stmt" where
  "sequence [] = skip"
| "sequence (m # ms) = andThen m (sequence ms)"

definition whenM :: "bool \<Rightarrow> stmt \<Rightarrow> stmt" where
  "whenM b m = (if b then m else skip)"

definition newline :: string where
  "newline = [CHR 0x0A]"

text \<open>
  \<open>dialog.showErrorBoxSync(title, message)\<close>: the \<open>dialog\<close> module of Electron has
  \<open>showErrorBox\<close> but no member \<open>showErrorBoxSync\<close>, so the call is a call of \<open>undefined\<close>:
  it throws a \<open>TypeError\<close> and shows nothing.
\<close>

definition dialog_showErrorBoxSync :: "string \<Rightarrow> string \<Rightarrow> stmt" where
  "dialog_showErrorBoxSync title msg =
     throwTypeError ''dialog.showErrorBoxSync is not a function''"

text \<open>
  \<^verbatim>\<open>
  function failFast(title, message): never {
    log.error(`[FAIL-FAST] ${title}: ${message}`);
    dialog.showErrorBoxSync(title, message);
    app.exit(1);
    throw new Error(message);
  }\<close>

  The log line comes first; the exception of the dialog call ends the function there, so
  its last two statements are never reached.
\<close>

definition failFast_line :: "string \<Rightarrow> string \<Rightarrow> string" where
  "failFast_line title msg = ''[FAIL-FAST] '' @ title @ '': '' @ msg"

definition failFast :: "string \<Rightarrow> string \<Rightarrow> stmt" where
  "failFast title msg =
     sequence [perform [LogError (failFast_line title msg)],
               dialog_showErrorBoxSync title msg,
               perform [AppExit 1],
               throw msg]"

definition getBackendPath :: "env \<Rightarrow> string" where
  "getBackendPath env = (if isDev env then devBackendPath env else prodBackendPath env)"

definition getUIPath :: "env \<Rightarrow> string" where
  "getUIPath env = (if isDev env then devUIPath env else prodUIPath env)"

text \<open>The messages of the three dependency checks (the template strings of the source).\<close>

definition node_message :: "env \<Rightarrow> string" where
  "node_message env =
     ''Node.js 18+ required. Found: '' @ nodeVersion env @ newline @ newline
     @ ''Install from: https://nodejs.org/''"

definition backend_message :: "env \<Rightarrow> string" where
  "backend_message env =
     ''Backend bundle missing at: '' @ getBackendPath env @ newline @ newline
     @ ''Run: npm run bundle-backend''"

definition ui_message :: "env \<Rightarrow> string" where
  "ui_message env =
     ''UI bundle missing at: '' @ getUIPath env @ newline @ newline
     @ ''Run: cd src/community/ui && npm run build''"

text \<open>
  \<open>checkDependencies\<close>: the Node.js version, then (in production only) the backend bundle,
  then the UI bundle; each failing check calls \<open>failFast\<close>.
\<close>

definition checkDependencies :: "env \<Rightarrow> stmt" where
  "checkDependencies env =
     sequence
       [perform [LogInfo ''[STARTUP] Checking dependencies...''],
        whenM (majorVersion env < 18)
          (failFast ''Node.js Version Too Old'' (node_message env)),
        perform [LogInfo (''[STARTUP] Node.js version OK: '' @ nodeVersion env)],
        whenM (\<not> isDev env)
          (sequence
             [whenM (\<not> fs_existsSync env (getBackendPath env))
                (failFast ''Backend Not Found'' (backend_message env)),
              perform [LogInfo (''[STARTUP] Backend bundle found: '' @ getBackendPath env)]]),
        whenM (\<not> fs_existsSync env (getUIPath env))
          (failFast ''UI Not Found'' (ui_message env)),
        perform [LogInfo (''[STARTUP] UI bundle found: '' @ getUIPath env)]]"

text \<open>
  The loop of \<open>waitForBackend\<close> over the health requests made before the timeout: the
  first \<open>ok\<close> response returns; when the time is up, \<open>failFast\<close>.
\<close>

fun waitForBackend_loop :: "bool list \<Rightarrow> stmt" where
  "waitForBackend_loop [] =
     failFast ''Backend Timeout'' ''Backend did not start within 30s''"
| "waitForBackend_loop (ok # rest) =
     (if ok then perform [LogInfo ''[BACKEND] Backend is ready!'']
      else waitForBackend_loop rest)"

definition waitForBackend :: "env \<Rightarrow> stmt" where
  "waitForBackend env =
     sequence [perform [LogInfo ''[BACKEND] Waiting for backend to be ready...''],
               waitForBackend_loop (healthPolls env)]"

text \<open>
  \<open>startBackend\<close>: both branches assign the spawned child to \<open>backendProcess\<close>; the
  handlers registered on the child only log and notify. Then \<open>await waitForBackend()\<close>.
\<close>

definition startBackend :: "env \<Rightarrow> stmt" where
  "startBackend env =
     sequence
       [perform [LogInfo ''[BACKEND] Starting backend server...''],
        (\<lambda>s. (Inr (), s\<lparr>backendProcess := Some (spawnPid env),
                         effects := effects s @ [Spawn (spawnPid env)]\<rparr>)),
        waitForBackend env]"

text \<open>
  \<^verbatim>\<open>
  function stopBackend(): void {
    if (backendProcess) {
      log.info('[BACKEND] Stopping backend...');
      backendProcess.kill('SIGTERM');
      backendProcess = null;
    }
  }\<close>
\<close>

definition stopBackend :: "main_state \<Rightarrow> main_state" where
  "stopBackend s =
     (case backendProcess s of
        Some p \<Rightarrow> s\<lparr>effects := effects s @ [LogInfo ''[BACKEND] Stopping backend...'', Kill p],
                    backendProcess := None\<rparr>
      | None \<Rightarrow> s)"

definition createWindow :: "env \<Rightarrow> stmt" where
  "createWindow env =
     sequence
       [perform [LogInfo ''[WINDOW] Creating main window...''],
        (case BrowserWindow_throws env of
           Some m \<Rightarrow> throw m
         | None \<Rightarrow> (\<lambda>s. (Inr (), s\<lparr>mainWindow := True,
                                      effects := effects s @ [NewBrowserWindow]\<rparr>)))]"

definition createTray :: "env \<Rightarrow> stmt" where
  "createTray env =
     sequence
       [perform [LogInfo ''[TRAY] Creating system tray...''],
        (case Tray_throws env of
           Some m \<Rightarrow> throw m
         | None \<Rightarrow> (\<lambda>s. (Inr (), s\<lparr>tray := True, effects := effects s @ [NewTray]\<rparr>)))]"

definition setupAutoUpdater :: "env \<Rightarrow> stmt" where
  "setupAutoUpdater env =
     sequence
       [perform [LogInfo ''[UPDATER] Setting up auto-updater...''],
        (case autoUpdater_throws env of Some m \<Rightarrow> throw m | None \<Rightarrow> skip),
        whenM (\<not> isDev env) (perform [CheckForUpdates])]"

text \<open>
  \<^verbatim>\<open>
  app.whenReady().then(async () => {
    log.info('[APP] Electron ready');
    try {
      checkDependencies();
      await startBackend();
      createWindow();
      createTray();
      setupAutoUpdater();
    } catch (err) {
      log.error(`[APP] Startup failed: ${err}`);
      app.exit(1);
    }
  });\<close>

  \<open>app.exit\<close> ends the process without emitting \<open>before-quit\<close>, so the handler of that
  event (the only caller of \<open>stopBackend\<close>) does not run on this path.
\<close>

definition startupSteps :: "env \<Rightarrow> stmt list" where
  "startupSteps env =
     [checkDependencies env, startBackend env, createWindow env, createTray env,
      setupAutoUpdater env]"

definition whenReady :: "env \<Rightarrow> main_state \<Rightarrow> main_state" where
  "whenReady env s =
     (let s0 = s\<lparr>effects := effects s @ [LogInfo ''[APP] Electron ready'']\<rparr>
      in case sequence (startupSteps env) s0 of
           (Inr u, s1) \<Rightarrow> s1
         | (Inl err, s1) \<Rightarrow>
             s1\<lparr>effects := effects s1 @ [LogError (''[APP] Startup failed: '' @ exn_toString err),
                                         AppExit 1]\<rparr>)"

text \<open>
  \<^verbatim>\<open>app.on('before-quit', () => { log.info('[APP] Before quit'); isQuitting = true; stopBackend(); });\<close>
\<close>

definition before_quit :: "main_state \<Rightarrow> main_state" where
  "before_quit s =
     stopBackend (s\<lparr>effects := effects s @ [LogInfo ''[APP] Before quit''], isQuitting := True\<rparr>)"

text \<open>
  The tray menu's Quit entry: \<^verbatim>\<open>click: () => { isQuitting = true; app.quit(); }\<close>.
  \<open>app.quit()\<close> emits \<open>before-quit\<close>, closes the window (its \<open>close\<close> handler lets it close
  because \<open>isQuitting\<close> is set, and \<open>closed\<close> sets \<open>mainWindow = null\<close>) and emits \<open>quit\<close>.
\<close>

definition quitClicked :: "main_state \<Rightarrow> main_state" where
  "quitClicked s =
     (let s1 = s\<lparr>isQuitting := True\<rparr>;
          s2 = before_quit (s1\<lparr>effects := effects s1 @ [AppQuit]\<rparr>);
          s3 = s2\<lparr>mainWindow := False\<rparr>
      in s3\<lparr>effects := effects s3 @ [LogInfo ''[APP] Quit'']\<rparr>)"

text \<open>
  The exit code of the process, read off the trace: the first \<open>app.exit(code)\<close> gives its
  code, an \<open>app.quit()\<close> that comes first gives 0; \<open>None\<close> while the process has not been
  told to end.
\<close>

fun exitCode :: "effect list \<Rightarrow> nat option" where
  "exitCode [] = None"
| "exitCode (AppExit c # es) = Some c"
| "exitCode (AppQuit # es) = Some 0"
| "exitCode (e # es) = exitCode es"

text \<open>The stop actions in a trace: the pids killed, in order.\<close>

fun stopActions :: "effect list \<Rightarrow> nat list" where
  "stopActions [] = []"
| "stopActions (Kill p # es) = p # stopActions es"
| "stopActions (e # es) = stopActions es"

text \<open>The error lines written to the log, in order.\<close>

fun loggedErrors :: "effect list \<Rightarrow> string list" where
  "loggedErrors [] = []"
| "loggedErrors (LogError line # es) = line # loggedErrors es"
| "loggedErrors (e # es) = loggedErrors es"

text \<open>
  The 1-based index of the first startup step that throws, \<open>None\<close> when all five complete.
\<close>

fun firstFailing :: "nat \<Rightarrow> stmt list \<Rightarrow> main_state \<Rightarrow> nat option" where
  "firstFailing i [] s = None"
| "firstFailing i (m # ms) s =
     (case m s of (Inl e, s1) \<Rightarrow> Some i | (Inr u, s1) \<Rightarrow> firstFailing (Suc i) ms s1)"

definition failedStep :: "env \<Rightarrow> main_state \<Rightarrow> nat option" where
  "failedStep env s =
     firstFailing 1 (startupSteps env)
       (s\<lparr>effects := effects s @ [LogInfo ''[APP] Electron ready'']\<rparr>)"

text \<open>
  The effects a startup step may add: anything but a stop action, an \<open>app.quit()\<close> or
  an \<open>app.exit\<close> with a code other than 1.
\<close>

fun startup_effect :: "effect \<Rightarrow> bool" where
  "startup_effect (Kill p) = False"
| "startup_effect AppQuit = False"
| "startup_effect (AppExit c) = (c = 1)"
| "startup_effect e = True"

text \<open>
  The specification's reading of dependency validation, for comparison with
  \<open>checkDependencies\<close>: every check of the list is evaluated on its own, and all unmet
  preconditions are listed, in the order of the checks, each by the error line
  \<open>failFast\<close> logs for it.
\<close>

definition spec_unmetPreconditions :: "env \<Rightarrow> string list" where
  "spec_unmetPreconditions env =
     (if majorVersion env < 18
      then [failFast_line ''Node.js Version Too Old'' (node_message env)] else [])
     @ (if \<not> isDev env \<and> \<not> fs_existsSync env (getBackendPath env)
        then [failFast_line ''Backend Not Found'' (backend_message env)] else [])
     @ (if \<not> fs_existsSync env (getUIPath env)
        then [failFast_line ''UI Not Found'' (ui_message env)] else [])"

text \<open>
  A statement that only ever appends such effects to the trace, whatever else it does
  to the state and whether or not it throws.
\<close>

definition adds_startup_effects :: "stmt \<Rightarrow> bool" where
  "adds_startup_effects m =
     (\<forall>s. \<exists>X. effects (snd (m s)) = effects s @ X \<and> list_all startup_effect X)"

text \<open>A statement that leaves the variable \<open>backendProcess\<close> as it found it.\<close>

definition keeps_backendProcess :: "stmt \<Rightarrow> bool" where
  "keeps_backendProcess m = (\<forall>s. backendProcess (snd (m s)) = backendProcess s)"

text \<open>
  Concrete environments. In \<open>env_ok\<close> every step succeeds (development mode, the backend
  answers the second health request). \<open>env_window_fails\<close> differs in that creating the
  window throws, so step 3 fails after the backend was started. In \<open>env_backend_timeout\<close>
  the backend never answers. In \<open>env_all_unmet\<close> (a packaged build) Node.js is too old and
  neither bundle exists.
\<close>

definition env_ok :: env where
  "env_ok =
     \<lparr>nodeVersion = ''20.1.0'', majorVersion = 20, isDev = True,
      devBackendPath = ''/app/src/community/main.py'',
      prodBackendPath = ''/res/backend/ax-traffic-analyzer'',
      devUIPath = ''/app/src/community/ui/dist/index.html'',
      prodUIPath = ''/res/ui/index.html'',
      fs_existsSync = (\<lambda>p. True), healthPolls = [False, True], spawnPid = 4242,
      BrowserWindow_throws = None, Tray_throws = None, autoUpdater_throws = None\<rparr>"

definition env_window_fails :: env where
  "env_window_fails = env_ok\<lparr>BrowserWindow_throws := Some ''no display''\<rparr>"

definition env_backend_timeout :: env where
  "env_backend_timeout = env_ok\<lparr>healthPolls := [False, False, False]\<rparr>"

definition env_all_unmet :: env where
  "env_all_unmet =
     env_ok\<lparr>nodeVersion := ''16.20.2'', majorVersion := 16, isDev := False,
            fs_existsSync := (\<lambda>p. False)\<rparr>"

section \<open>Container entrypoint (docker/entrypoint.sh)\<close>

text \<open>
  The lines the dependency validation prints (without their decoration) and the exit
  status when the script ends there.
  \<^verbatim>\<open>
  check_command() {
      local cmd=$1
      local pkg=$2
      if ! command -v "$cmd" &> /dev/null; then
          echo "[ENTRYPOINT] FATAL: $cmd not found"
          echo "[ENTRYPOINT] Install with: apt-get install $pkg"
          exit 1
      fi
      echo "[ENTRYPOINT] $cmd found"
  }\<close>
  \<open>available\<close> says which commands \<open>command -v\<close> finds.
\<close>

datatype sh_line = Found string | Fatal_not_found string | Install_with string

definition check_command :: "(string \<Rightarrow> bool) \<Rightarrow> string \<Rightarrow> string \<Rightarrow> sh_line list \<times> nat option" where
  "check_command available cmd pkg =
     (if \<not> available cmd then ([Fatal_not_found cmd, Install_with pkg], Some 1)
      else ([Found cmd], None))"

text \<open>Consecutive \<open>check_command\<close> calls: an \<open>exit\<close> ends the script, so the rest is not run.\<close>

fun check_commands :: "(string \<Rightarrow> bool) \<Rightarrow> (string \<times> string) list \<Rightarrow> sh_line list \<times> nat option" where
  "check_commands available [] = ([], None)"
| "check_commands available ((cmd, pkg) # rest) =
     (case check_command available cmd pkg of
        (out, Some code) \<Rightarrow> (out, Some code)
      | (out, None) \<Rightarrow>
          (case check_commands available rest of (out', st) \<Rightarrow> (out @ out', st)))"

definition required_commands :: "(string \<times> string) list" where
  "required_commands =
     [(''hostapd'', ''hostapd''), (''dnsmasq'', ''dnsmasq''), (''iptables'', ''iptables''),
      (''tcpdump'', ''tcpdump''), (''tshark'', ''tshark'')]"

definition validate_system_dependencies :: "(string \<Rightarrow> bool) \<Rightarrow> sh_line list \<times> nat option" where
  "validate_system_dependencies available = check_commands available required_commands"

fun reportedMissing :: "sh_line list \<Rightarrow> string list" where
  "reportedMissing [] = []"
| "reportedMissing (Fatal_not_found cmd # ls) = cmd # reportedMissing ls"
| "reportedMissing (l # ls) = reportedMissing ls"

section \<open>Properties of the desktop main process\<close>

lemma stopActions_append: "stopActions (xs @ ys) = stopActions xs @ stopActions ys"
  by (induction xs rule: stopActions.induct) simp_all

lemma loggedErrors_append: "loggedErrors (xs @ ys) = loggedErrors xs @ loggedErrors ys"
  by (induction xs rule: loggedErrors.induct) simp_all

lemma exitCode_append:
  "exitCode (xs @ ys) = (case exitCode xs of None \<Rightarrow> exitCode ys | Some c \<Rightarrow> Some c)"
  by (induction xs rule: exitCode.induct) simp_all

lemma startup_effects_no_stop: "list_all startup_effect X \<Longrightarrow> stopActions X = []"
  by (induction X rule: stopActions.induct) simp_all

lemma startup_effects_exit: "list_all startup_effect X \<Longrightarrow> exitCode X = None \<or> exitCode X = Some 1"
  by (induction X rule: exitCode.induct) simp_all

lemma adds_skip: "adds_startup_effects skip"
  by (simp add: adds_startup_effects_def skip_def)

lemma adds_throw: "adds_startup_effects (throw m)"
  by (simp add: adds_startup_effects_def throw_def)

lemma adds_dialog: "adds_startup_effects (dialog_showErrorBoxSync title msg)"
  by (simp add: adds_startup_effects_def dialog_showErrorBoxSync_def throwTypeError_def)

lemma adds_perform: "list_all startup_effect es \<Longrightarrow> adds_startup_effects (perform es)"
  by (auto simp: adds_startup_effects_def perform_def)

lemma adds_andThen:
  assumes "adds_startup_effects m" and "adds_startup_effects k"
  shows "adds_startup_effects (andThen m k)"
  unfolding adds_startup_effects_def
proof
  fix s
  obtain X where X: "effects (snd (m s)) = effects s @ X" "list_all startup_effect X"
    using assms(1) unfolding adds_startup_effects_def by blast
  show "\<exists>Z. effects (snd (andThen m k s)) = effects s @ Z \<and> list_all startup_effect Z"
  proof (cases "m s")
    case (Pair r s1)
    show ?thesis
    proof (cases r)
      case (Inl e)
      with Pair X show ?thesis by (auto simp: andThen_def)
    next
      case (Inr u)
      obtain Y where Y: "effects (snd (k s1)) = effects s1 @ Y" "list_all startup_effect Y"
        using assms(2) unfolding adds_startup_effects_def by blast
      from Pair Inr have "andThen m k s = k s1" by (simp add: andThen_def)
      moreover from Pair X have "effects s1 = effects s @ X" by simp
      ultimately have "effects (snd (andThen m k s)) = effects s @ (X @ Y)"
        using Y by simp
      moreover have "list_all startup_effect (X @ Y)" using X Y by simp
      ultimately show ?thesis by blast
    qed
  qed
qed

lemma adds_sequence_Nil: "adds_startup_effects (sequence [])"
  by (simp add: adds_skip)

lemma adds_sequence_Cons:
  "adds_startup_effects m \<Longrightarrow> adds_startup_effects (sequence ms)
   \<Longrightarrow> adds_startup_effects (sequence (m # ms))"
  by (simp add: adds_andThen)

lemma adds_whenM: "adds_startup_effects m \<Longrightarrow> adds_startup_effects (whenM b m)"
  by (simp add: whenM_def adds_skip)

lemma adds_failFast: "adds_startup_effects (failFast title msg)"
  unfolding failFast_def
  by (intro adds_sequence_Cons adds_sequence_Nil adds_perform adds_throw adds_dialog) simp_all

lemma adds_checkDependencies: "adds_startup_effects (checkDependencies env)"
  unfolding checkDependencies_def
  by (intro adds_sequence_Cons adds_sequence_Nil adds_perform adds_whenM adds_failFast)
     simp_all

lemma adds_waitForBackend_loop: "adds_startup_effects (waitForBackend_loop polls)"
  by (induction polls) (simp_all add: adds_failFast adds_perform)

lemma adds_spawn:
  "adds_startup_effects
     (\<lambda>s. (Inr (), s\<lparr>backendProcess := Some p, effects := effects s @ [Spawn p]\<rparr>))"
  by (simp add: adds_startup_effects_def)

lemma adds_startBackend: "adds_startup_effects (startBackend env)"
  unfolding startBackend_def waitForBackend_def
  by (intro adds_sequence_Cons adds_sequence_Nil adds_perform adds_waitForBackend_loop
            adds_spawn)
     simp_all

lemma adds_newWindow:
  "adds_startup_effects
     (case w of Some m \<Rightarrow> throw m
      | None \<Rightarrow> (\<lambda>s. (Inr (), s\<lparr>mainWindow := True, effects := effects s @ [NewBrowserWindow]\<rparr>)))"
  by (cases w) (simp_all add: adds_throw, simp add: adds_startup_effects_def)

lemma adds_newTray:
  "adds_startup_effects
     (case w of Some m \<Rightarrow> throw m
      | None \<Rightarrow> (\<lambda>s. (Inr (), s\<lparr>tray := True, effects := effects s @ [NewTray]\<rparr>)))"
  by (cases w) (simp_all add: adds_throw, simp add: adds_startup_effects_def)

lemma adds_updaterThrow:
  "adds_startup_effects (case w of Some m \<Rightarrow> throw m | None \<Rightarrow> skip)"
  by (cases w) (simp_all add: adds_throw adds_skip)

lemma adds_createWindow: "adds_startup_effects (createWindow env)"
  unfolding createWindow_def
  by (intro adds_sequence_Cons adds_sequence_Nil adds_perform adds_newWindow) simp_all

lemma adds_createTray: "adds_startup_effects (createTray env)"
  unfolding createTray_def
  by (intro adds_sequence_Cons adds_sequence_Nil adds_perform adds_newTray) simp_all

lemma adds_setupAutoUpdater: "adds_startup_effects (setupAutoUpdater env)"
  unfolding setupAutoUpdater_def
  by (intro adds_sequence_Cons adds_sequence_Nil adds_perform adds_updaterThrow adds_whenM)
     simp_all

lemma adds_startup: "adds_startup_effects (sequence (startupSteps env))"
  unfolding startupSteps_def
  by (intro adds_sequence_Cons adds_sequence_Nil adds_checkDependencies adds_startBackend
            adds_createWindow adds_createTray adds_setupAutoUpdater)

lemma firstFailing_Some:
  "firstFailing i ms s = Some k \<Longrightarrow> (\<exists>e. fst (sequence ms s) = Inl e) \<and> i \<le> k \<and> k < i + length ms"
proof (induction ms arbitrary: i s)
  case Nil
  then show ?case by simp
next
  case (Cons m ms)
  show ?case
  proof (cases "m s")
    case (Pair r s1)
    show ?thesis
    proof (cases r)
      case (Inl e)
      with Pair Cons.prems show ?thesis by (auto simp: andThen_def)
    next
      case (Inr u)
      with Pair Cons.prems have "firstFailing (Suc i) ms s1 = Some k" by simp
      from Cons.IH[OF this] Pair Inr show ?thesis by (auto simp: andThen_def)
    qed
  qed
qed

lemma firstFailing_None:
  "firstFailing i ms s = None \<Longrightarrow> fst (sequence ms s) = Inr ()"
proof (induction ms arbitrary: i s)
  case Nil
  then show ?case by (simp add: skip_def)
next
  case (Cons m ms)
  then show ?case by (auto simp: andThen_def split: prod.splits sum.splits)
qed

lemma whenReady_effects:
  "\<exists>X. effects (whenReady env s) = effects s @ X \<and> list_all startup_effect X"
proof -
  let ?s0 = "s\<lparr>effects := effects s @ [LogInfo ''[APP] Electron ready'']\<rparr>"
  obtain X where X: "effects (snd (sequence (startupSteps env) ?s0)) = effects ?s0 @ X"
      "list_all startup_effect X"
    using adds_startup[of env] unfolding adds_startup_effects_def by blast
  show ?thesis
  proof (cases "sequence (startupSteps env) ?s0")
    case (Pair r s1)
    with X have s1: "effects s1 = effects s @ (LogInfo ''[APP] Electron ready'' # X)" by simp
    show ?thesis
    proof (cases r)
      case (Inr u)
      with Pair have "whenReady env s = s1" by (simp add: whenReady_def)
      with s1 X(2) show ?thesis by auto
    next
      case (Inl e)
      with Pair have "effects (whenReady env s)
          = effects s1 @ [LogError (''[APP] Startup failed: '' @ exn_toString e), AppExit 1]"
        by (simp add: whenReady_def)
      with s1 have "effects (whenReady env s) = effects s @ (LogInfo ''[APP] Electron ready'' # X
          @ [LogError (''[APP] Startup failed: '' @ exn_toString e), AppExit 1])" by simp
      moreover have "list_all startup_effect (LogInfo ''[APP] Electron ready'' # X
          @ [LogError (''[APP] Startup failed: '' @ exn_toString e), AppExit 1])"
        using X(2) by simp
      ultimately show ?thesis by blast
    qed
  qed
qed

lemma whenReady_never_stops:
  "stopActions (effects (whenReady env s)) = stopActions (effects s)"
proof -
  obtain X where "effects (whenReady env s) = effects s @ X" and "list_all startup_effect X"
    using whenReady_effects by blast
  then show ?thesis
    by (simp add: stopActions_append startup_effects_no_stop)
qed

lemma whenReady_failure_exits:
  assumes "failedStep env s = Some k"
  shows "\<exists>X. effects (whenReady env s) = effects s @ X @ [AppExit 1] \<and> list_all startup_effect X"
proof -
  let ?s0 = "s\<lparr>effects := effects s @ [LogInfo ''[APP] Electron ready'']\<rparr>"
  obtain X where X: "effects (snd (sequence (startupSteps env) ?s0)) = effects ?s0 @ X"
      "list_all startup_effect X"
    using adds_startup[of env] unfolding adds_startup_effects_def by blast
  from assms obtain e where e: "fst (sequence (startupSteps env) ?s0) = Inl e"
    using firstFailing_Some unfolding failedStep_def by blast
  obtain s1 where s1: "sequence (startupSteps env) ?s0 = (Inl e, s1)"
    using e by (cases "sequence (startupSteps env) ?s0") simp
  with X have "effects s1 = effects s @ (LogInfo ''[APP] Electron ready'' # X)" by simp
  with s1 have "effects (whenReady env s) = effects s @ (LogInfo ''[APP] Electron ready'' # X
          @ [LogError (''[APP] Startup failed: '' @ exn_toString e)]) @ [AppExit 1]"
    by (simp add: whenReady_def)
  moreover have "list_all startup_effect (LogInfo ''[APP] Electron ready'' # X
          @ [LogError (''[APP] Startup failed: '' @ exn_toString e)])" using X(2) by simp
  ultimately show ?thesis by blast
qed

lemma whenReady_failure_exitCode:
  assumes "failedStep env s = Some k" and "exitCode (effects s) = None"
  shows "exitCode (effects (whenReady env s)) = Some 1"
proof -
  obtain X where X: "effects (whenReady env s) = effects s @ X @ [AppExit 1]"
      "list_all startup_effect X"
    using whenReady_failure_exits[OF assms(1)] by blast
  show ?thesis
    using X(1) assms(2) startup_effects_exit[OF X(2)]
    by (auto simp: exitCode_append)
qed

lemma failedStep_range:
  assumes "failedStep env s = Some k"
  shows "1 \<le> k \<and> k \<le> 5"
proof -
  from assms have "firstFailing 1 (startupSteps env)
      (s\<lparr>effects := effects s @ [LogInfo ''[APP] Electron ready'']\<rparr>) = Some k"
    by (simp add: failedStep_def)
  from firstFailing_Some[OF this] have "1 \<le> k \<and> k < 1 + length (startupSteps env)"
    by blast
  then show ?thesis
    by (simp add: startupSteps_def)
qed

lemma andThen_backend:
  "keeps_backendProcess k \<Longrightarrow> backendProcess (snd (andThen m k s)) = backendProcess (snd (m s))"
  by (cases "m s") (auto simp: andThen_def keeps_backendProcess_def split: sum.splits)

lemma keeps_skip: "keeps_backendProcess skip"
  by (simp add: keeps_backendProcess_def skip_def)

lemma keeps_throw: "keeps_backendProcess (throw m)"
  by (simp add: keeps_backendProcess_def throw_def)

lemma keeps_dialog: "keeps_backendProcess (dialog_showErrorBoxSync title msg)"
  by (simp add: keeps_backendProcess_def dialog_showErrorBoxSync_def throwTypeError_def)

lemma keeps_perform: "keeps_backendProcess (perform es)"
  by (simp add: keeps_backendProcess_def perform_def)

lemma keeps_sequence_Nil: "keeps_backendProcess (sequence [])"
  by (simp add: keeps_skip)

lemma keeps_sequence_Cons:
  "keeps_backendProcess m \<Longrightarrow> keeps_backendProcess (sequence ms)
   \<Longrightarrow> keeps_backendProcess (sequence (m # ms))"
  by (simp add: keeps_backendProcess_def andThen_backend)

lemma keeps_whenM: "keeps_backendProcess m \<Longrightarrow> keeps_backendProcess (whenM b m)"
  by (simp add: whenM_def keeps_skip)

lemma keeps_failFast: "keeps_backendProcess (failFast title msg)"
  unfolding failFast_def
  by (intro keeps_sequence_Cons keeps_sequence_Nil keeps_perform keeps_throw keeps_dialog)

lemma keeps_checkDependencies: "keeps_backendProcess (checkDependencies env)"
  unfolding checkDependencies_def
  by (intro keeps_sequence_Cons keeps_sequence_Nil keeps_perform keeps_whenM keeps_failFast)

lemma keeps_waitForBackend_loop: "keeps_backendProcess (waitForBackend_loop polls)"
  by (induction polls) (simp_all add: keeps_failFast keeps_perform)

lemma keeps_newWindow:
  "keeps_backendProcess
     (case w of Some m \<Rightarrow> throw m
      | None \<Rightarrow> (\<lambda>s. (Inr (), s\<lparr>mainWindow := True, effects := effects s @ [NewBrowserWindow]\<rparr>)))"
  by (cases w) (simp_all add: keeps_throw, simp add: keeps_backendProcess_def)

lemma keeps_newTray:
  "keeps_backendProcess
     (case w of Some m \<Rightarrow> throw m
      | None \<Rightarrow> (\<lambda>s. (Inr (), s\<lparr>tray := True, effects := effects s @ [NewTray]\<rparr>)))"
  by (cases w) (simp_all add: keeps_throw, simp add: keeps_backendProcess_def)

lemma keeps_updaterThrow:
  "keeps_backendProcess (case w of Some m \<Rightarrow> throw m | None \<Rightarrow> skip)"
  by (cases w) (simp_all add: keeps_throw keeps_skip)

lemma keeps_after_backend:
  "keeps_backendProcess (sequence [createWindow env, createTray env, setupAutoUpdater env])"
  unfolding createWindow_def createTray_def setupAutoUpdater_def
  by (intro keeps_sequence_Cons keeps_sequence_Nil keeps_perform keeps_whenM keeps_newWindow
            keeps_newTray keeps_updaterThrow)

lemma andThen_perform: "andThen (perform es) k s = k (s\<lparr>effects := effects s @ es\<rparr>)"
  by (simp add: andThen_def perform_def)

lemma startBackend_sets_backendProcess:
  "backendProcess (snd (startBackend env s)) = Some (spawnPid env)"
proof -
  have w: "keeps_backendProcess (sequence [waitForBackend env])"
    unfolding waitForBackend_def
    by (intro keeps_sequence_Cons keeps_sequence_Nil keeps_perform keeps_waitForBackend_loop)
  have "startBackend env s
      = andThen (\<lambda>s. (Inr (), s\<lparr>backendProcess := Some (spawnPid env),
                                  effects := effects s @ [Spawn (spawnPid env)]\<rparr>))
                (sequence [waitForBackend env])
                (s\<lparr>effects := effects s @ [LogInfo ''[BACKEND] Starting backend server...'']\<rparr>)"
    unfolding startBackend_def by (simp only: sequence.simps andThen_perform)
  then show ?thesis
    by (simp only: andThen_backend[OF w]) simp
qed

lemma whenReady_backendProcess:
  "backendProcess (whenReady env s)
     = backendProcess (snd (sequence (startupSteps env)
         (s\<lparr>effects := effects s @ [LogInfo ''[APP] Electron ready'']\<rparr>)))"
  by (simp add: whenReady_def Let_def split: prod.splits sum.splits)

lemma whenReady_leaves_backend_running:
  assumes "failedStep env s = Some k" and "2 \<le> k"
  shows "backendProcess (whenReady env s) = Some (spawnPid env)"
proof -
  let ?s0 = "s\<lparr>effects := effects s @ [LogInfo ''[APP] Electron ready'']\<rparr>"
  let ?rest = "sequence [createWindow env, createTray env, setupAutoUpdater env]"
  obtain r1 s1 where c: "checkDependencies env ?s0 = (r1, s1)"
    by (cases "checkDependencies env ?s0")
  have "r1 = Inr ()"
  proof (cases r1)
    case (Inl e)
    with c assms show ?thesis by (simp add: failedStep_def startupSteps_def)
  next
    case (Inr u)
    then show ?thesis by simp
  qed
  with c have "sequence (startupSteps env) ?s0 = andThen (startBackend env) ?rest s1"
    by (simp add: startupSteps_def andThen_def)
  then have "backendProcess (snd (sequence (startupSteps env) ?s0))
      = backendProcess (snd (startBackend env s1))"
    by (simp only: andThen_backend[OF keeps_after_backend])
  then show ?thesis
    by (simp add: whenReady_backendProcess startBackend_sets_backendProcess)
qed

lemmas startup_defs =
  failedStep_def whenReady_def startupSteps_def main_init_def
  checkDependencies_def startBackend_def waitForBackend_def createWindow_def createTray_def
  setupAutoUpdater_def getUIPath_def getBackendPath_def
  andThen_def whenM_def perform_def skip_def throw_def throwTypeError_def failFast_def
  dialog_showErrorBoxSync_def

text \<open>
  Claim C1, as stated: when step \<open>k\<close> fails, the subsystems started at steps \<open>1..k-1\<close>
  are stopped in reverse order and the failure index returned is \<open>k\<close>. It fails where
  creating the window throws: step 3 is the failing step, the backend spawned at step 2
  (pid 4242) is still referenced by \<open>backendProcess\<close> and is never killed, and the exit
  code is 1, not 3.
\<close>

theorem startup_rollback_counterexample:
  "failedStep env_window_fails main_init = Some 3
   \<and> Spawn 4242 \<in> set (effects (whenReady env_window_fails main_init))
   \<and> backendProcess (whenReady env_window_fails main_init) = Some 4242
   \<and> 4242 \<notin> set (stopActions (effects (whenReady env_window_fails main_init)))
   \<and> exitCode (effects (whenReady env_window_fails main_init)) \<noteq> Some 3"
  by (simp add: startup_defs env_window_fails_def env_ok_def)

text \<open>
  Claim C1, amended: when step \<open>k\<close> of the five startup steps fails (\<open>k\<close> is between 1 and
  5), the ready handler performs no stop action at all (the rollback is empty for every
  \<open>k\<close>, so nothing started at steps \<open>1..k-1\<close> is stopped; from step 2 on, \<open>backendProcess\<close>
  still refers to the spawned backend), and it ends the process with \<open>app.exit(1)\<close>: the
  exit code is 1 whatever \<open>k\<close> is.
\<close>

theorem startup_failure_performs_no_rollback:
  assumes "failedStep env s = Some k" and "exitCode (effects s) = None"
  shows "1 \<le> k \<and> k \<le> 5
         \<and> stopActions (effects (whenReady env s)) = stopActions (effects s)
         \<and> (2 \<le> k \<longrightarrow> backendProcess (whenReady env s) = Some (spawnPid env))
         \<and> exitCode (effects (whenReady env s)) = Some 1"
proof -
  obtain X where X: "effects (whenReady env s) = effects s @ X @ [AppExit 1]"
      "list_all startup_effect X"
    using whenReady_failure_exits[OF assms(1)] by blast
  have "stopActions (effects (whenReady env s)) = stopActions (effects s)"
    using X by (simp add: stopActions_append startup_effects_no_stop)
  then show ?thesis
    using failedStep_range[OF assms(1)] whenReady_failure_exitCode[OF assms]
          whenReady_leaves_backend_running[OF assms(1)]
    by blast
qed

theorem startup_failure_performs_no_rollback_witness:
  "failedStep env_window_fails main_init = Some 3
   \<and> exitCode (effects main_init) = None
   \<and> stopActions (effects (whenReady env_window_fails main_init)) = []
   \<and> backendProcess (whenReady env_window_fails main_init) = Some 4242
   \<and> exitCode (effects (whenReady env_window_fails main_init)) = Some 1"
proof -
  have f: "failedStep env_window_fails main_init = Some 3"
    by (simp add: startup_defs env_window_fails_def env_ok_def)
  have e: "exitCode (effects main_init) = None"
    by (simp add: main_init_def)
  have p: "spawnPid env_window_fails = 4242"
    by (simp add: env_window_fails_def env_ok_def)
  show ?thesis
    using startup_failure_performs_no_rollback[OF f e] f p by (simp add: main_init_def)
qed

text \<open>
  Claim C2, as stated: when step \<open>k\<close> fails the exit code is \<open>k\<close>. It fails where the
  backend never answers the health request: step 2 is the failing step and the exit code
  is 1.
\<close>

theorem exit_code_counterexample:
  "failedStep env_backend_timeout main_init = Some 2
   \<and> exitCode (effects (whenReady env_backend_timeout main_init)) = Some 1
   \<and> exitCode (effects (whenReady env_backend_timeout main_init)) \<noteq> Some 2"
  by (simp add: startup_defs env_backend_timeout_def env_ok_def)

text \<open>
  Claim C2, amended: when any step \<open>k\<close> of the startup fails, the process exits with code
  1 (the code does not tell the steps apart); when the user quits from the tray menu of
  a running application, the process ends through \<open>app.quit()\<close>, with exit code 0.
\<close>

theorem exit_code_is_1_on_startup_failure:
  "(failedStep env s = Some k \<and> exitCode (effects s) = None
      \<longrightarrow> exitCode (effects (whenReady env s)) = Some 1)
   \<and> (exitCode (effects s) = None \<longrightarrow> exitCode (effects (quitClicked s)) = Some 0)"
proof -
  have "exitCode (effects s) = None \<Longrightarrow> exitCode (effects (quitClicked s)) = Some 0"
    by (simp add: quitClicked_def before_quit_def stopBackend_def Let_def exitCode_append
             split: option.splits)
  then show ?thesis
    using whenReady_failure_exitCode by blast
qed

theorem exit_code_is_1_on_startup_failure_witness:
  "failedStep env_backend_timeout main_init = Some 2
   \<and> exitCode (effects main_init) = None
   \<and> exitCode (effects (whenReady env_backend_timeout main_init)) = Some 1
   \<and> exitCode (effects (whenReady env_ok main_init)) = None
   \<and> exitCode (effects (quitClicked (whenReady env_ok main_init))) = Some 0"
proof -
  have f: "failedStep env_backend_timeout main_init = Some 2"
    by (simp add: startup_defs env_backend_timeout_def env_ok_def)
  have e: "exitCode (effects main_init) = None"
    by (simp add: main_init_def)
  have r: "exitCode (effects (whenReady env_ok main_init)) = None"
    by (simp add: startup_defs env_ok_def)
  show ?thesis
    using exit_code_is_1_on_startup_failure[of env_backend_timeout main_init 2]
          exit_code_is_1_on_startup_failure[of env_ok "whenReady env_ok main_init" 0]
          f e r
    by simp
qed

lemma checkDependencies_logs:
  "loggedErrors (effects (snd (checkDependencies env s)))
     = loggedErrors (effects s) @ take 1 (spec_unmetPreconditions env)
   \<and> (fst (checkDependencies env s) = Inr () \<longleftrightarrow> spec_unmetPreconditions env = [])"
  by (simp add: checkDependencies_def spec_unmetPreconditions_def andThen_def whenM_def
        perform_def skip_def throw_def throwTypeError_def dialog_showErrorBoxSync_def
        failFast_def loggedErrors_append)

lemma reportedMissing_append: "reportedMissing (xs @ ys) = reportedMissing xs @ reportedMissing ys"
  by (induction xs rule: reportedMissing.induct) simp_all

lemma check_commands_first_missing:
  "reportedMissing (fst (check_commands available cmds))
     = take 1 (filter (\<lambda>c. \<not> available c) (map fst cmds))
   \<and> (snd (check_commands available cmds)
        = (if \<forall>c \<in> set (map fst cmds). available c then None else Some 1))"
proof (induction cmds)
  case Nil
  then show ?case by simp
next
  case (Cons a cmds)
  obtain cmd pkg where a: "a = (cmd, pkg)" by (cases a)
  show ?case
  proof (cases "available cmd")
    case True
    obtain out st where r: "check_commands available cmds = (out, st)"
      by (cases "check_commands available cmds")
    with Cons have "reportedMissing out = take 1 (filter (\<lambda>c. \<not> available c) (map fst cmds))"
      and "st = (if \<forall>c \<in> set (map fst cmds). available c then None else Some 1)"
      by simp_all
    with a r True show ?thesis
      by (simp add: check_command_def)
  next
    case False
    with a show ?thesis
      by (simp add: check_command_def)
  qed
qed

text \<open>
  Claim C3, as stated: when more than one check fails, every check still runs and the
  error lists every unmet precondition. It fails in a packaged build with Node.js 16 and
  neither bundle present: three preconditions are unmet, validation stops at the Node.js
  check, and the only error line logged is the one for the Node.js version.
\<close>

theorem checkDependencies_all_unmet_counterexample:
  "spec_unmetPreconditions env_all_unmet
     = [failFast_line ''Node.js Version Too Old'' (node_message env_all_unmet),
        failFast_line ''Backend Not Found'' (backend_message env_all_unmet),
        failFast_line ''UI Not Found'' (ui_message env_all_unmet)]
   \<and> effects (snd (checkDependencies env_all_unmet main_init))
     = [LogInfo ''[STARTUP] Checking dependencies...'',
        LogError (failFast_line ''Node.js Version Too Old'' (node_message env_all_unmet))]
   \<and> length (loggedErrors (effects (snd (checkDependencies env_all_unmet main_init))))
     \<noteq> length (spec_unmetPreconditions env_all_unmet)"
  by (simp add: startup_defs spec_unmetPreconditions_def env_all_unmet_def env_ok_def)

text \<open>
  Claim C3, amended: dependency validation is fail-fast. \<open>checkDependencies\<close> runs its
  checks in the fixed order (Node.js version, backend bundle in production, UI bundle) and
  stops at the first one that fails: the only error line it logs is the one of the first
  unmet precondition, and it completes (does not throw) exactly when none is unmet. The
  container entrypoint does the same with its five required commands: it names the first
  missing one and exits with status 1.
\<close>

theorem dependency_validation_stops_at_first_unmet:
  "loggedErrors (effects (snd (checkDependencies env s)))
     = loggedErrors (effects s) @ take 1 (spec_unmetPreconditions env)
   \<and> (fst (checkDependencies env s) = Inr () \<longleftrightarrow> spec_unmetPreconditions env = [])
   \<and> reportedMissing (fst (validate_system_dependencies available))
     = take 1 (filter (\<lambda>c. \<not> available c) (map fst required_commands))
   \<and> snd (validate_system_dependencies available)
     = (if \<forall>c \<in> set (map fst required_commands). available c then None else Some 1)"
  using checkDependencies_logs[of env s] check_commands_first_missing[of available required_commands]
  by (simp add: validate_system_dependencies_def)

theorem dependency_validation_stops_at_first_unmet_witness:
  "loggedErrors (effects (snd (checkDependencies env_all_unmet main_init)))
     = [failFast_line ''Node.js Version Too Old'' (node_message env_all_unmet)]
   \<and> fst (checkDependencies env_all_unmet main_init) \<noteq> Inr ()
   \<and> fst (checkDependencies env_ok main_init) = Inr ()
   \<and> reportedMissing (fst (validate_system_dependencies (\<lambda>c. c = ''hostapd'' \<or> c = ''iptables'')))
     = [''dnsmasq'']
   \<and> snd (validate_system_dependencies (\<lambda>c. c = ''hostapd'' \<or> c = ''iptables'')) = Some 1"
proof -
  have u: "spec_unmetPreconditions env_all_unmet
     = [failFast_line ''Node.js Version Too Old'' (node_message env_all_unmet),
        failFast_line ''Backend Not Found'' (backend_message env_all_unmet),
        failFast_line ''UI Not Found'' (ui_message env_all_unmet)]"
    by (simp add: spec_unmetPreconditions_def env_all_unmet_def env_ok_def getBackendPath_def
          getUIPath_def)
  have v: "spec_unmetPreconditions env_ok = []"
    by (simp add: spec_unmetPreconditions_def env_ok_def getBackendPath_def getUIPath_def)
  show ?thesis
    using dependency_validation_stops_at_first_unmet
            [of env_all_unmet main_init "\<lambda>c. c = ''hostapd'' \<or> c = ''iptables''"]
          dependency_validation_stops_at_first_unmet
            [of env_ok main_init "\<lambda>c. c = ''hostapd'' \<or> c = ''iptables''"]
    by (simp add: u v main_init_def required_commands_def)
qed

section \<open>Properties of the WebSocket client\<close>


lemma pending_empty_iff: "pendingTimers c = [] \<longleftrightarrow> (\<forall>i < length (timers c). i \<in> set (fired c))"
  by (auto simp: pendingTimers_def filter_empty_conv)

lemma quiet_step:
  assumes "\<not> shouldReconnect c" and "pendingTimers c = []" and "\<not> is_connect e"
  shows "\<not> shouldReconnect (ws_step e c) \<and> pendingTimers (ws_step e c) = []
         \<and> timers (ws_step e c) = timers c \<and> sockets (ws_step e c) = sockets c"
proof (cases e)
  case (TimerFires i)
  with assms show ?thesis by (auto simp: pending_empty_iff)
next
  case (SocketCloses i)
  with assms show ?thesis by (simp add: onclose_def reconnect_def)
next
  case (SocketMessage i m)
  with assms show ?thesis
    by (auto simp: onmessage_def emit_def pendingTimers_def split: option.splits)
next
  case (SocketOpens i)
  with assms show ?thesis by (simp add: onopen_def pendingTimers_def)
next
  case (CallOn ev cb)
  with assms show ?thesis by (simp add: on_listener_def pendingTimers_def split: option.splits)
next
  case (CallOff ev cb)
  with assms show ?thesis by (simp add: off_listener_def pendingTimers_def split: option.splits)
next
  case CallDisconnect
  with assms show ?thesis by (simp add: disconnect_def pendingTimers_def)
next
  case (CallConnect t)
  with assms show ?thesis by simp
qed

lemma quiet_run:
  assumes "\<not> shouldReconnect c" and "pendingTimers c = []" and "\<forall>e \<in> set es. \<not> is_connect e"
  shows "\<not> shouldReconnect (ws_run es c) \<and> timers (ws_run es c) = timers c
         \<and> sockets (ws_run es c) = sockets c"
  using assms
proof (induction es arbitrary: c)
  case Nil
  then show ?case by simp
next
  case (Cons e es)
  from Cons.prems have q: "\<not> shouldReconnect (ws_step e c) \<and> pendingTimers (ws_step e c) = []
         \<and> timers (ws_step e c) = timers c \<and> sockets (ws_step e c) = sockets c"
    using quiet_step[of c e] by simp
  with Cons.IH[of "ws_step e c"] Cons.prems show ?case by simp
qed

lemma disconnect_without_pending_timer:
  assumes "pendingTimers c = []" and "\<forall>e \<in> set es. \<not> is_connect e"
  shows "\<not> shouldReconnect (ws_run es (disconnect c))
         \<and> timers (ws_run es (disconnect c)) = timers c
         \<and> sockets (ws_run es (disconnect c)) = sockets c"
proof -
  have "\<not> shouldReconnect (disconnect c)" "pendingTimers (disconnect c) = []"
       "timers (disconnect c) = timers c" "sockets (disconnect c) = sockets c"
    using assms(1) by (simp_all add: disconnect_def pendingTimers_def)
  then show ?thesis
    using quiet_run[of "disconnect c" es] assms(2) by simp
qed

lemma disconnect_clears_listeners:
  "listeners (disconnect c) = [] \<and> onmessage m (disconnect c) = disconnect c"
  by (simp add: disconnect_def onmessage_def emit_def split: option.splits prod.splits)

lemma reconnect_delay_step:
  assumes "shouldReconnect c" and "reconnectAttempts c + 1 < maxReconnectAttempts c"
  shows "fst (last (timers (onclose tok (onclose tok c))))
           = fst (last (timers (onclose tok c))) + 2000"
  using assms by (simp add: onclose_def reconnect_def Let_def)

text \<open>
  Claim C5: the delay between reconnection attempts doubles on each consecutive attempt,
  up to a cap. Evaluated on five consecutive failed attempts, the delays are 2000, 4000,
  6000, 8000 and 10000 ms: they grow by 2000 ms per attempt (\<open>2000 * reconnectAttempts\<close>),
  and the third one is not the double of the second.
\<close>

theorem reconnect_delays_grow_linearly:
  "map fst (timers (ws_run five_failures wsClient)) = [2000, 4000, 6000, 8000, 10000]
   \<and> fst (timers (ws_run five_failures wsClient) ! 2)
       \<noteq> 2 * fst (timers (ws_run five_failures wsClient) ! 1)"
  by (simp add: five_failures_def wsClient_def connect_def onclose_def reconnect_def Let_def)




text \<open>
  Claim C9: after \<open>disconnect()\<close> no reconnection attempt is made on a later socket
  close, and \<open>shouldReconnect\<close> stays false until the next explicit \<open>connect()\<close>.
  Evaluated where \<open>disconnect()\<close> is called while a reconnection timer is pending: the
  socket closes, \<open>reconnect\<close> sets the 2000 ms timer, \<open>disconnect()\<close> is called (it does not
  clear the timer), the timer runs \<open>connect\<close>, which sets \<open>shouldReconnect\<close> again and opens
  socket 1; when that socket closes, a second reconnection is scheduled. No \<open>connect()\<close>
  was called explicitly after the \<open>disconnect()\<close>.
\<close>

theorem reconnect_after_disconnect_with_pending_timer:
  "\<not> shouldReconnect (ws_run [CallConnect ''t'', SocketCloses 0, CallDisconnect] wsClient)
   \<and> pendingTimers (ws_run [CallConnect ''t'', SocketCloses 0, CallDisconnect] wsClient) = [0]
   \<and> shouldReconnect
        (ws_run [CallConnect ''t'', SocketCloses 0, CallDisconnect, TimerFires 0] wsClient)
   \<and> ws (ws_run [CallConnect ''t'', SocketCloses 0, CallDisconnect, TimerFires 0] wsClient)
       = Some 1
   \<and> timers (ws_run [CallConnect ''t'', SocketCloses 0, CallDisconnect,
                      TimerFires 0, SocketCloses 1] wsClient)
       = [(2000, ''t''), (4000, ''t'')]"
  by (simp add: wsClient_def connect_def onclose_def reconnect_def disconnect_def Let_def
        pendingTimers_def)

section \<open>Properties of shutdown\<close>





section \<open>Properties of the API client's response interceptor\<close>

text \<open>
  Claim C8: for an error response with status 401 the interceptor removes \<open>token\<close> from
  \<open>localStorage\<close> (leaving every other key) and sets the location to \<open>/login\<close>; for any
  other error (another status, or no response) it leaves the browser state as it was; in
  every case it returns the rejected promise carrying the error.
\<close>

theorem interceptor_401_removes_token:
  "(response_status err = Some 401 \<longrightarrow>
      localStorage (snd (interceptor_onRejected err b)) = (localStorage b)(''token'' := None)
      \<and> location_href (snd (interceptor_onRejected err b)) = ''/login'')
   \<and> (response_status err \<noteq> Some 401 \<longrightarrow> snd (interceptor_onRejected err b) = b)
   \<and> fst (interceptor_onRejected err b) = Rejected err"
  by (simp add: interceptor_onRejected_def)

theorem interceptor_401_removes_token_witness:
  "localStorage
     (snd (interceptor_onRejected \<lparr>response_status = Some 401, message = ''Unauthorized''\<rparr>
             \<lparr>localStorage = [''token'' \<mapsto> ''abc''], location_href = ''/flows''\<rparr>)) ''token''
     = None
   \<and> location_href
       (snd (interceptor_onRejected \<lparr>response_status = Some 401, message = ''Unauthorized''\<rparr>
               \<lparr>localStorage = [''token'' \<mapsto> ''abc''], location_href = ''/flows''\<rparr>))
     = ''/login''
   \<and> localStorage
       (snd (interceptor_onRejected \<lparr>response_status = Some 500, message = ''Server Error''\<rparr>
               \<lparr>localStorage = [''token'' \<mapsto> ''abc''], location_href = ''/flows''\<rparr>)) ''token''
     = Some ''abc''"
  using interceptor_401_removes_token
          [of "\<lparr>response_status = Some 401, message = ''Unauthorized''\<rparr>"
              "\<lparr>localStorage = [''token'' \<mapsto> ''abc''], location_href = ''/flows''\<rparr>"]
        interceptor_401_removes_token
          [of "\<lparr>response_status = Some 500, message = ''Server Error''\<rparr>"
              "\<lparr>localStorage = [''token'' \<mapsto> ''abc''], location_href = ''/flows''\<rparr>"]
  by simp

section \<open>Properties of the mobile auth store\<close>

text \<open>
  Claim C10: when the login request throws, \<open>login\<close> returns false and leaves
  \<open>isAuthenticated\<close>, \<open>token\<close> and \<open>serverUrl\<close> (and the API client) as they were, so a
  store that was not authenticated stays so with a null token; only \<open>loading\<close> (false)
  and \<open>error\<close> (the error's message, or \<open>Login failed\<close>) are updated. When the request
  succeeds, \<open>login\<close> returns true, \<open>isAuthenticated\<close> is true and \<open>token\<close> is the returned
  access token.
\<close>

theorem login_failure_keeps_auth_state:
  "(case login (Inl e) (state, api) of
      (ok, state', api') \<Rightarrow>
        \<not> ok \<and> isAuthenticated state' = isAuthenticated state \<and> token state' = token state
        \<and> serverUrl state' = serverUrl state \<and> \<not> loading state'
        \<and> error state' = Some (case e of ErrorObject m \<Rightarrow> m | OtherValue \<Rightarrow> ''Login failed'')
        \<and> api' = api)
   \<and> (case login (Inr response) (state, api) of
      (ok, state', api') \<Rightarrow>
        ok \<and> isAuthenticated state' \<and> token state' = Some (access_token response)
        \<and> serverUrl state' = serverUrl state \<and> \<not> loading state' \<and> error state' = None
        \<and> api_token api' = Some (access_token response))"
  by (simp add: login_def api_login_def)

theorem login_failure_keeps_auth_state_witness:
  "login (Inl (ErrorObject ''Network Error''))
         (useAuthStore_init, \<lparr>api_token = None, baseURL = None\<rparr>)
     = (False, useAuthStore_init\<lparr>error := Some ''Network Error''\<rparr>,
        \<lparr>api_token = None, baseURL = None\<rparr>)
   \<and> \<not> isAuthenticated (fst (snd (login (Inl (ErrorObject ''Network Error''))
         (useAuthStore_init, \<lparr>api_token = None, baseURL = None\<rparr>))))
   \<and> token (fst (snd (login (Inl (ErrorObject ''Network Error''))
         (useAuthStore_init, \<lparr>api_token = None, baseURL = None\<rparr>)))) = None
   \<and> token (fst (snd (login (Inr \<lparr>access_token = ''jwt'', token_type = ''bearer''\<rparr>)
         (useAuthStore_init, \<lparr>api_token = None, baseURL = None\<rparr>)))) = Some ''jwt''"
  using login_failure_keeps_auth_state
          [where e = "ErrorObject ''Network Error''" and state = useAuthStore_init
             and api = "\<lparr>api_token = None, baseURL = None\<rparr>"
             and response = "\<lparr>access_token = ''jwt'', token_type = ''bearer''\<rparr>"]
  by (simp add: login_def api_login_def useAuthStore_init_def)

section \<open>Properties of the traffic store\<close>



lemma fetchFlows_stores_all_items:
  "flows (fetchFlows (Inr (its, tot)) state) = its"
  by (simp add: fetchFlows_def)




end
